theory Spec2Isabelle
  imports Complex_Main "HOL-Library.Word"
begin

section \<open>Data model (package common)\<close>

text \<open>
  Instants (Go's \<open>time.Time\<close>) are unix seconds, so \<open>t.Unix()\<close> is \<open>t\<close> itself.
  Go's \<open>int\<close> and \<open>int64\<close> fields that only carry values (timestamps, exit codes,
  a timeout) are \<open>int\<close>; the arithmetic of the log manager (the paging product of
  caller-supplied numbers, the period in days, the sum of the durations) is modelled on
  64-bit words further down.
\<close>

type_synonym instant = int

record Job =
  Name :: string
  Command :: string
  CronExpr :: string
  Timeout :: int
  Disabled :: bool
  CreatedAt :: int
  UpdatedAt :: int

definition JobSaveDir :: string where
  "JobSaveDir = ''/cron/jobs/''"

definition JobLockDir :: string where
  "JobLockDir = ''/cron/lock/''"

definition JobEventSave :: int where
  "JobEventSave = 1"

definition JobEventDelete :: int where
  "JobEventDelete = 2"

record JobEvent =
  EventType :: int
  evJob :: Job

text \<open>
  \<open>JobExecuteInfo\<close>: the cancellation handle is the pair \<open>CancelCtx\<close>/\<open>CancelFunc\<close>
  of the source; only whether it has been set matters to the functions modelled here.
\<close>

record JobExecuteInfo =
  execJob :: Job
  PlanTime :: instant
  RealTime :: instant
  CancelSet :: bool

record JobExecuteResult =
  JobName :: string
  Output :: string
  Error :: string
  StartTime :: instant
  EndTime :: instant
  ExitCode :: int
  IsTimeout :: bool

record JobLog =
  logJobName :: string
  logCommand :: string
  logOutput :: string
  logError :: string
  logPlanTime :: int
  logScheduleTime :: int
  logStartTime :: int
  logEndTime :: int
  logExitCode :: int
  logIsTimeout :: bool
  logWorkerIP :: string

datatype error =
  ErrJobNotFound
  | ErrLockAlreadyAcquired
  | EtcdError string string string
  | MongoError string string string
  | ErrText string

section \<open>Log sink (package logsink)\<close>

text \<open>
  A buffered channel is the list of the values it holds, oldest first, with the capacity
  it was made with. The zap logger is the list of the entries written to it.
\<close>

datatype level = LvDebug | LvInfo | LvWarn | LvError

record LogSink =
  logChan :: "JobLog list"
  logChanCap :: nat
  logBatch :: "JobLog list"
  batchSize :: int
  sinkLogger :: "(level \<times> string) list"

text \<open>
  \<open>select { case l.logChan <- jobLog: default: l.logger.Error(...) }\<close>: the send case is
  taken when the buffer has room, the default case otherwise. Neither case waits.
\<close>

definition Append :: "LogSink \<Rightarrow> JobLog \<Rightarrow> LogSink" where
  "Append l jobLog =
     (if length (logChan l) < logChanCap l
      then l\<lparr>logChan := logChan l @ [jobLog]\<rparr>
      else l\<lparr>sinkLogger := sinkLogger l @ [(LvError, ''log channel is full, log discarded'')]\<rparr>)"

section \<open>The etcd store, as the client library presents it\<close>

text \<open>
  The key-value store behind \<open>clientv3\<close>: every key holds a value, the lease it is bound
  to (0 for none) and its create and mod revisions; the store counts revisions and grants
  leases with ids it has not used before. A key that does not exist has create revision 0,
  a key that exists has the revision of the write that created it.
\<close>

record KeyValue =
  kvValue :: string
  kvLease :: int
  kvCreateRevision :: int
  kvModRevision :: int

record Etcd =
  kvs :: "string \<rightharpoonup> KeyValue"
  revision :: int
  leases :: "int \<rightharpoonup> int"
  lastLease :: int

definition etcd_wf :: "Etcd \<Rightarrow> bool" where
  "etcd_wf s \<longleftrightarrow>
     0 \<le> revision s \<and> 0 \<le> lastLease s
     \<and> (\<forall>k kv. kvs s k = Some kv \<longrightarrow> 0 < kvCreateRevision kv)
     \<and> (\<forall>i ttl. leases s i = Some ttl \<longrightarrow> 0 < i \<and> i \<le> lastLease s)"

definition CreateRevision :: "Etcd \<Rightarrow> string \<Rightarrow> int" where
  "CreateRevision s k = (case kvs s k of None \<Rightarrow> 0 | Some kv \<Rightarrow> kvCreateRevision kv)"

definition lease_Grant :: "Etcd \<Rightarrow> int \<Rightarrow> int \<times> Etcd" where
  "lease_Grant s ttl =
     (let i = lastLease s + 1 in (i, s\<lparr>leases := (leases s)(i \<mapsto> ttl), lastLease := i\<rparr>))"

definition kv_Put :: "Etcd \<Rightarrow> string \<Rightarrow> string \<Rightarrow> int \<Rightarrow> Etcd" where
  "kv_Put s k v lease =
     (let rev = revision s + 1 in
      s\<lparr>kvs := (kvs s)(k \<mapsto>
           \<lparr>kvValue = v, kvLease = lease,
            kvCreateRevision = (case kvs s k of None \<Rightarrow> rev | Some old \<Rightarrow> kvCreateRevision old),
            kvModRevision = rev\<rparr>),
        revision := rev\<rparr>)"

text \<open>
  The transaction \<open>If(CreateRevision(key) = 0).Then(OpPut(key, "", WithLease(id))).Else(OpGet(key))\<close>,
  committed in one step; the first component is \<open>txnResp.Succeeded\<close>.
\<close>

definition txn_Commit :: "Etcd \<Rightarrow> string \<Rightarrow> int \<Rightarrow> bool \<times> Etcd" where
  "txn_Commit s lockKey leaseID =
     (if CreateRevision s lockKey = 0 then (True, kv_Put s lockKey [] leaseID) else (False, s))"

section \<open>etcd client wrapper (package etcd)\<close>

text \<open>
  Each call of the wrapper runs under a 5 s timeout and returns the library's error wrapped
  in an \<open>EtcdError\<close>. The outcome of the transport is an input of the model: \<open>None\<close>
  when the call reaches the store and is answered, \<open>Some cause\<close> when it fails; a failed
  call leaves the store as it was.
\<close>

type_synonym rpc = "string option"

definition etcd_Get :: "rpc \<Rightarrow> Etcd \<Rightarrow> string \<Rightarrow> error + KeyValue list" where
  "etcd_Get r s key =
     (case r of
        Some cause \<Rightarrow> Inl (EtcdError ''get'' key cause)
      | None \<Rightarrow> Inr (case kvs s key of None \<Rightarrow> [] | Some kv \<Rightarrow> [kv]))"

definition etcd_Put :: "rpc \<Rightarrow> Etcd \<Rightarrow> string \<Rightarrow> string \<Rightarrow> error option \<times> Etcd" where
  "etcd_Put r s key v =
     (case r of
        Some cause \<Rightarrow> (Some (EtcdError ''put'' key cause), s)
      | None \<Rightarrow> (None, kv_Put s key v 0))"

definition TryAcquireLock :: "rpc \<Rightarrow> rpc \<Rightarrow> Etcd \<Rightarrow> string \<Rightarrow> int \<Rightarrow> (error + int) \<times> Etcd" where
  "TryAcquireLock grantRpc txnRpc s lockKey ttl =
     (case grantRpc of
        Some cause \<Rightarrow> (Inl (EtcdError ''lease.grant'' lockKey cause), s)
      | None \<Rightarrow>
          (case lease_Grant s ttl of
             (leaseID, s1) \<Rightarrow>
               (case txnRpc of
                  Some cause \<Rightarrow> (Inl (EtcdError ''txn'' lockKey cause), s1)
                | None \<Rightarrow>
                    (case txn_Commit s1 lockKey leaseID of
                       (succeeded, s2) \<Rightarrow>
                         if \<not> succeeded then (Inl ErrLockAlreadyAcquired, s2)
                         else (Inr leaseID, s2)))))"

section \<open>Job registry of the master (package master/jobmgr)\<close>

text \<open>
  \<open>encoding/json\<close> is not part of the repository: \<open>json.Marshal\<close> and
  \<open>json.Unmarshal\<close> on \<open>common.Job\<close> are parameters, \<open>None\<close> standing for a
  returned error (its own text is not carried, so a message that wraps it ends after the
  colon). The clock reading \<open>time.Now().Unix()\<close> is the parameter \<open>now\<close>.
  A function that writes through its \<open>*common.Job\<close> argument returns the job as the
  caller sees it afterwards.
\<close>

type_synonym marshal = "Job \<Rightarrow> string option"
type_synonym unmarshal = "string \<Rightarrow> Job option"

definition SaveJob :: "marshal \<Rightarrow> int \<Rightarrow> rpc \<Rightarrow> Etcd \<Rightarrow> Job \<Rightarrow> error option \<times> Job \<times> Etcd" where
  "SaveJob enc now putRpc s job =
     (let job1 = (if CreatedAt job = 0 then job\<lparr>CreatedAt := now\<rparr> else job);
          job2 = job1\<lparr>UpdatedAt := now\<rparr>
      in case enc job2 of
           None \<Rightarrow> (Some (ErrText ''failed to marshal job: ''), job2, s)
         | Some jobData \<Rightarrow>
             (case etcd_Put putRpc s (JobSaveDir @ Name job2) jobData of
                (Some err, s') \<Rightarrow> (Some err, job2, s')
              | (None, s') \<Rightarrow> (None, job2, s')))"

definition GetJob :: "unmarshal \<Rightarrow> rpc \<Rightarrow> Etcd \<Rightarrow> string \<Rightarrow> error + Job" where
  "GetJob dec getRpc s name =
     (case etcd_Get getRpc s (JobSaveDir @ name) of
        Inl err \<Rightarrow> Inl err
      | Inr [] \<Rightarrow> Inl ErrJobNotFound
      | Inr (kv # _) \<Rightarrow>
          (case dec (kvValue kv) of
             None \<Rightarrow> Inl (ErrText ''failed to unmarshal job data: '')
           | Some job \<Rightarrow> Inr job))"

text \<open>
  \<open>DisableJob\<close> and \<open>EnableJob\<close> read the clock themselves (\<open>now\<close>) before
  \<open>SaveJob\<close> reads it again (\<open>now'\<close>).
\<close>

definition DisableJob ::
  "marshal \<Rightarrow> unmarshal \<Rightarrow> int \<Rightarrow> int \<Rightarrow> rpc \<Rightarrow> rpc \<Rightarrow> Etcd \<Rightarrow> string \<Rightarrow> error option \<times> Etcd" where
  "DisableJob enc dec now now' getRpc putRpc s name =
     (case GetJob dec getRpc s name of
        Inl err \<Rightarrow> (Some err, s)
      | Inr job \<Rightarrow>
          (case SaveJob enc now' putRpc s (job\<lparr>Disabled := True, UpdatedAt := now\<rparr>) of
             (err, _, s') \<Rightarrow> (err, s')))"

definition EnableJob ::
  "marshal \<Rightarrow> unmarshal \<Rightarrow> int \<Rightarrow> int \<Rightarrow> rpc \<Rightarrow> rpc \<Rightarrow> Etcd \<Rightarrow> string \<Rightarrow> error option \<times> Etcd" where
  "EnableJob enc dec now now' getRpc putRpc s name =
     (case GetJob dec getRpc s name of
        Inl err \<Rightarrow> (Some err, s)
      | Inr job \<Rightarrow>
          (case SaveJob enc now' putRpc s (job\<lparr>Disabled := False, UpdatedAt := now\<rparr>) of
             (err, _, s') \<Rightarrow> (err, s')))"

section \<open>Control API (package master/api)\<close>

definition ApiSuccess :: int where
  "ApiSuccess = 0"

definition ApiFailure :: int where
  "ApiFailure = 1000"

definition ApiParamError :: int where
  "ApiParamError = 1001"

record ApiResponse =
  Code :: int
  Message :: string
  Data :: "Job option"

definition success :: "Job option \<Rightarrow> ApiResponse" where
  "success d = \<lparr>Code = ApiSuccess, Message = ''success'', Data = d\<rparr>"

definition failure :: "int \<Rightarrow> string \<Rightarrow> ApiResponse" where
  "failure code message = \<lparr>Code = code, Message = message, Data = None\<rparr>"

text \<open>\<open>err.Error()\<close> of the error values of package common.\<close>

fun error_text :: "error \<Rightarrow> string" where
  "error_text ErrJobNotFound = ''job not found''"
| "error_text ErrLockAlreadyAcquired = ''lock already acquired''"
| "error_text (EtcdError operation key cause) =
     ''Etcd '' @ operation @ '' operation error, key='' @ key @ '': '' @ cause"
| "error_text (MongoError operation collection cause) =
     ''MongoDB '' @ operation @ '' operation error, collection='' @ collection @ '': '' @ cause"
| "error_text (ErrText t) = t"

text \<open>
  The handler \<open>Server.saveJob\<close>. Its inputs are the outcome of binding the request body
  (\<open>Inl\<close> the binding error) and the six-field cron parser of \<open>robfig/cron\<close>, a
  parameter giving the parse error of an expression if there is one.
\<close>

definition saveJob ::
  "(string \<Rightarrow> string option) \<Rightarrow> marshal \<Rightarrow> int \<Rightarrow> rpc \<Rightarrow> Etcd \<Rightarrow> string + Job \<Rightarrow> ApiResponse \<times> Etcd" where
  "saveJob cronErr enc now putRpc s body =
     (case body of
        Inl e \<Rightarrow> (failure ApiParamError (''invalid job data: '' @ e), s)
      | Inr job \<Rightarrow>
          if Name job = [] then (failure ApiParamError ''job name is required'', s)
          else if Command job = [] then (failure ApiParamError ''job command is required'', s)
          else if CronExpr job = [] then
            (failure ApiParamError ''job cron expression is required'', s)
          else
            (case cronErr (CronExpr job) of
               Some e \<Rightarrow> (failure ApiParamError (''invalid cron expression: '' @ e), s)
             | None \<Rightarrow>
                 (case SaveJob enc now putRpc s job of
                    (Some err, job', s') \<Rightarrow>
                      (failure ApiFailure (''failed to save job: '' @ error_text err), s')
                  | (None, job', s') \<Rightarrow> (success (Some job'), s'))))"

section \<open>Job lock (package joblock)\<close>

record JobLock =
  jlJobName :: string
  jlLockKey :: string
  jlLeaseID :: int
  jlIsLocked :: bool

definition NewJobLock :: "string \<Rightarrow> JobLock" where
  "NewJobLock name =
     \<lparr>jlJobName = name, jlLockKey = JobLockDir @ name, jlLeaseID = 0, jlIsLocked = False\<rparr>"

text \<open>
  \<open>TryLock\<close>, up to the start of the renewal goroutine; \<open>jobLockTTL\<close> is
  \<open>config.GlobalConfig.JobLockTTL\<close>.
\<close>

definition TryLock :: "int \<Rightarrow> rpc \<Rightarrow> rpc \<Rightarrow> Etcd \<Rightarrow> JobLock \<Rightarrow> error option \<times> JobLock \<times> Etcd" where
  "TryLock jobLockTTL grantRpc txnRpc s jl =
     (case TryAcquireLock grantRpc txnRpc s (jlLockKey jl) jobLockTTL of
        (Inl err, s') \<Rightarrow> (Some err, jl, s')
      | (Inr lid, s') \<Rightarrow> (None, jl\<lparr>jlLeaseID := lid, jlIsLocked := True\<rparr>, s'))"

section \<open>Job cache of the worker (package worker/jobmgr)\<close>

datatype EventKind = EventTypePut | EventTypeDelete

record WatchEvent =
  wType :: EventKind
  wKey :: string
  wValue :: string

text \<open>The job name of a watched key: what follows \<open>JobSaveDir\<close>, empty for a shorter key.\<close>

definition watchedJobName :: "string \<Rightarrow> string" where
  "watchedJobName key =
     (if length key > length JobSaveDir then drop (length JobSaveDir) key else [])"

text \<open>
  \<open>jobsCache\<close> is the \<open>sync.Map\<close> from job names to jobs. The result is the event
  handed back (\<open>None\<close> for \<open>nil\<close>) and the cache afterwards.
\<close>

definition handleWatchEvent ::
  "unmarshal \<Rightarrow> (string \<rightharpoonup> Job) \<Rightarrow> WatchEvent \<Rightarrow> JobEvent option \<times> (string \<rightharpoonup> Job)" where
  "handleWatchEvent dec jobsCache event =
     (let jobName = watchedJobName (wKey event) in
      case wType event of
        EventTypePut \<Rightarrow>
          (case dec (wValue event) of
             None \<Rightarrow> (None, jobsCache)
           | Some job \<Rightarrow>
               (Some \<lparr>EventType = JobEventSave, evJob = job\<rparr>, jobsCache(Name job \<mapsto> job)))
      | EventTypeDelete \<Rightarrow>
          (case jobsCache jobName of
             None \<Rightarrow> (None, jobsCache)
           | Some job \<Rightarrow>
               (Some \<lparr>EventType = JobEventDelete, evJob = job\<rparr>, jobsCache(jobName := None))))"

section \<open>Scheduler (package worker/scheduler)\<close>

text \<open>
  The cron library (\<open>gorhill/cronexpr\<close>) is a parameter: \<open>parse\<close> gives the compiled
  expression of a text, \<open>None\<close> when \<open>cronexpr.Parse\<close> returns an error, and
  \<open>nextAfter expr t\<close> is \<open>expr.Next(t)\<close>. \<open>now\<close> is the reading of \<open>time.Now()\<close>.
\<close>

record 'e JobSchedulePlan =
  planJob :: Job
  Expr :: 'e
  NextTime :: instant

record 'e Scheduler =
  jobPlans :: "string \<rightharpoonup> 'e JobSchedulePlan"
  jobExecuting :: "string \<rightharpoonup> JobExecuteInfo"

definition handleJobEvent ::
  "(string \<Rightarrow> 'e option) \<Rightarrow> ('e \<Rightarrow> instant \<Rightarrow> instant) \<Rightarrow> instant
     \<Rightarrow> 'e Scheduler \<Rightarrow> JobEvent \<Rightarrow> 'e Scheduler" where
  "handleJobEvent parse nextAfter now s event =
     (if EventType event = JobEventSave then
        (let job = evJob event in
         if Disabled job then s\<lparr>jobPlans := (jobPlans s)(Name job := None)\<rparr>
         else
           (case parse (CronExpr job) of
              None \<Rightarrow> s
            | Some expr \<Rightarrow>
                s\<lparr>jobPlans := (jobPlans s)(Name job \<mapsto>
                     \<lparr>planJob = job, Expr = expr, NextTime = nextAfter expr now\<rparr>)\<rparr>))
      else if EventType event = JobEventDelete then
        s\<lparr>jobPlans := (jobPlans s)(Name (evJob event) := None)\<rparr>
      else s)"

definition handleJobResult :: "'e Scheduler \<Rightarrow> JobExecuteResult \<Rightarrow> 'e Scheduler" where
  "handleJobResult s result = s\<lparr>jobExecuting := (jobExecuting s)(JobName result := None)\<rparr>"

definition GetExecutingJobs :: "'e Scheduler \<Rightarrow> (string \<rightharpoonup> JobExecuteInfo)" where
  "GetExecutingJobs s = jobExecuting s"

section \<open>Worker process (package cmd/worker)\<close>

text \<open>\<open>executor.BuildJobLog\<close>; \<open>workerID\<close> is \<open>config.GlobalConfig.WorkerID\<close>.\<close>

definition BuildJobLog :: "string \<Rightarrow> JobExecuteResult \<Rightarrow> JobExecuteInfo \<Rightarrow> JobLog" where
  "BuildJobLog workerID result info =
     \<lparr>logJobName = JobName result, logCommand = Command (execJob info),
      logOutput = Output result, logError = Error result,
      logPlanTime = PlanTime info, logScheduleTime = RealTime info,
      logStartTime = StartTime result, logEndTime = EndTime result,
      logExitCode = ExitCode result, logIsTimeout = IsTimeout result,
      logWorkerIP = workerID\<rparr>"

record 'e workerContext =
  scheduler :: "'e Scheduler"
  logSink :: LogSink

text \<open>The body of the loop \<open>for result := range resultChan\<close> of \<open>handleExecuteResults\<close>.\<close>

definition handleExecuteResult ::
  "string \<Rightarrow> 'e workerContext \<Rightarrow> JobExecuteResult \<Rightarrow> 'e workerContext" where
  "handleExecuteResult workerID wctx result =
     (case GetExecutingJobs (scheduler wctx) (JobName result) of
        None \<Rightarrow> wctx
      | Some jobInfo \<Rightarrow>
          wctx\<lparr>logSink := Append (logSink wctx) (BuildJobLog workerID result jobInfo)\<rparr>)"

fun handleExecuteResults ::
  "string \<Rightarrow> 'e workerContext \<Rightarrow> JobExecuteResult list \<Rightarrow> 'e workerContext" where
  "handleExecuteResults workerID wctx [] = wctx"
| "handleExecuteResults workerID wctx (result # rest) =
     handleExecuteResults workerID (handleExecuteResult workerID wctx result) rest"

text \<open>
  The executor has one result channel, and two goroutines receive from it: the
  scheduler's loop (\<open>case result := <-s.jobResultChan\<close>, which runs \<open>handleJobResult\<close>)
  and \<open>handleExecuteResults\<close>, started by \<open>startWorker\<close>. A value sent on a channel
  is received by exactly one of them.
\<close>

datatype receiver = SchedulerLoop | ResultHandler

definition receiveResult ::
  "string \<Rightarrow> receiver \<Rightarrow> 'e workerContext \<Rightarrow> JobExecuteResult \<Rightarrow> 'e workerContext" where
  "receiveResult workerID who wctx result =
     (case who of
        SchedulerLoop \<Rightarrow> wctx\<lparr>scheduler := handleJobResult (scheduler wctx) result\<rparr>
      | ResultHandler \<Rightarrow> handleExecuteResult workerID wctx result)"

section \<open>Executor (package worker/executor)\<close>

text \<open>
  What the goroutine of \<open>ExecuteJob\<close> observes of the process it runs: the two clock
  readings, the captured standard output, the error returned by \<open>cmd.Run()\<close>
  (an \<open>*exec.ExitError\<close> with its exit code, or another error, each with its
  \<open>Error()\<close> text), and how the context stands when \<open>ctx.Err()\<close> is read: whether
  the deadline passed while the context was live, and whether it was cancelled.
\<close>

datatype RunError = ExitError int string | OtherError string

datatype CtxErr = DeadlineExceeded | Canceled

record Execution =
  startedAt :: instant
  endedAt :: instant
  stdout :: string
  runErr :: "RunError option"
  deadlinePassed :: bool
  cancelled :: bool

text \<open>
  The context is a deadline context only when the job has a positive timeout, so only then
  can \<open>ctx.Err()\<close> be \<open>DeadlineExceeded\<close>.
\<close>

definition ctxErr :: "JobExecuteInfo \<Rightarrow> Execution \<Rightarrow> CtxErr option" where
  "ctxErr info x =
     (if 0 < Timeout (execJob info) \<and> deadlinePassed x then Some DeadlineExceeded
      else if cancelled x then Some Canceled
      else None)"

fun runErrText :: "RunError \<Rightarrow> string" where
  "runErrText (ExitError code text) = text"
| "runErrText (OtherError text) = text"

definition executeResult :: "JobExecuteInfo \<Rightarrow> Execution \<Rightarrow> JobExecuteResult" where
  "executeResult info x =
     (let result = \<lparr>JobName = Name (execJob info), Output = stdout x, Error = [],
                     StartTime = startedAt x, EndTime = endedAt x, ExitCode = 0,
                     IsTimeout = False\<rparr>
      in case runErr x of
           Some err \<Rightarrow>
             if ctxErr info x = Some DeadlineExceeded
             then result\<lparr>Error := ''job execution timed out'', IsTimeout := True, ExitCode := - 1\<rparr>
             else
               (case err of
                  ExitError code text \<Rightarrow> result\<lparr>Error := runErrText err, ExitCode := code\<rparr>
                | OtherError text \<Rightarrow> result\<lparr>Error := runErrText err, ExitCode := - 1\<rparr>)
         | None \<Rightarrow> result\<lparr>ExitCode := 0\<rparr>)"

text \<open>
  \<open>cmd.Run()\<close> starts the child and waits for it. It returns, with what the goroutine
  then observes, or it never returns: a job with timeout 0 runs under a context without a
  deadline, and a child that does not exit is then waited for until somebody cancels.
\<close>

datatype Run = Returns Execution | NeverReturns

text \<open>
  \<open>ExecuteJob\<close>: the goroutine stores the cancellation handle in \<open>info\<close>, calls
  \<open>cmd.Run()\<close> and, on every path after its return, ends with the send
  \<open>e.jobResults <- result\<close>. The send waits while the channel is full and never gives the
  value up, so the channel is modelled by the sequence of values sent on it. While
  \<open>cmd.Run()\<close> has not returned nothing is sent.
\<close>

definition ExecuteJob ::
  "JobExecuteResult list \<Rightarrow> JobExecuteInfo \<Rightarrow> Run \<Rightarrow> JobExecuteInfo \<times> JobExecuteResult list" where
  "ExecuteJob jobResults info run =
     (case run of
        NeverReturns \<Rightarrow> (info\<lparr>CancelSet := True\<rparr>, jobResults)
      | Returns x \<Rightarrow> (info\<lparr>CancelSet := True\<rparr>, jobResults @ [executeResult info x]))"

section \<open>Log store client (package mongodb)\<close>

text \<open>
  The collection \<open>job_logs\<close> is the list of its documents. \<open>Find\<close> with the options of
  \<open>FindJobLogs\<close> filters on the job name (no filter for the empty name), sorts by
  \<open>startTime\<close> descending (documents with equal start times keep their order here),
  skips and limits; the server rejects a negative skip, a limit of 0 means no limit and
  a negative limit is taken by its absolute value. \<open>skip\<close> and \<open>limit\<close> are \<open>int64\<close>.
\<close>

definition LogCollectionName :: string where
  "LogCollectionName = ''job_logs''"

definition jobNameFilter :: "string \<Rightarrow> JobLog \<Rightarrow> bool" where
  "jobNameFilter jobName l = (if jobName \<noteq> [] then logJobName l = jobName else True)"

definition FindJobLogs :: "rpc \<Rightarrow> JobLog list \<Rightarrow> string \<Rightarrow> 64 word \<Rightarrow> 64 word \<Rightarrow> error + JobLog list" where
  "FindJobLogs r coll jobName skip limit =
     (case r of
        Some cause \<Rightarrow> Inl (MongoError ''find_job_logs'' LogCollectionName cause)
      | None \<Rightarrow>
          if sint skip < 0
          then Inl (MongoError ''find_job_logs'' LogCollectionName ''negative skip'')
          else
            (let docs = drop (nat (sint skip))
                          (sort_key (\<lambda>l. - logStartTime l) (filter (jobNameFilter jobName) coll))
             in Inr (if limit = 0 then docs else take (nat \<bar>sint limit\<bar>) docs)))"

definition CountJobLogs :: "rpc \<Rightarrow> JobLog list \<Rightarrow> string \<Rightarrow> error + int" where
  "CountJobLogs r coll jobName =
     (case r of
        Some cause \<Rightarrow> Inl (MongoError ''count'' LogCollectionName cause)
      | None \<Rightarrow> Inr (int (length (filter (jobNameFilter jobName) coll))))"

text \<open>
  Modelled from the spec: \<open>FindJobLogsSince\<close> is called by the log manager but is missing
  from the sources of package mongodb. The spec has the statistics scan the
  "logs with startAt >= now - days" of the job; the empty job name selects all jobs, as in
  the other queries.
\<close>

definition FindJobLogsSince :: "rpc \<Rightarrow> JobLog list \<Rightarrow> string \<Rightarrow> int \<Rightarrow> error + JobLog list" where
  "FindJobLogsSince r coll jobName timestamp =
     (case r of
        Some cause \<Rightarrow> Inl (MongoError ''find_job_logs_since'' LogCollectionName cause)
      | None \<Rightarrow>
          Inr (filter (\<lambda>l. jobNameFilter jobName l \<and> timestamp \<le> logStartTime l) coll))"

section \<open>Log manager (package master/logmgr)\<close>

text \<open>
  Go's \<open>int\<close> is taken at 64 bits: \<open>page\<close> and \<open>pageSize\<close> are 64-bit words read as
  two's complement, and \<open>(page - 1) * pageSize\<close> wraps around as it does in Go.
\<close>

definition DefaultPage :: "64 word" where
  "DefaultPage = 1"

definition DefaultPageSize :: "64 word" where
  "DefaultPageSize = 10"

definition MaxPageSize :: "64 word" where
  "MaxPageSize = 100"

definition ListLogs ::
  "rpc \<Rightarrow> rpc \<Rightarrow> JobLog list \<Rightarrow> string \<Rightarrow> 64 word \<Rightarrow> 64 word \<Rightarrow> JobLog list \<times> int \<times> error option" where
  "ListLogs findRpc countRpc coll jobName page0 pageSize0 =
     (let page = (if sint page0 \<le> 0 then DefaultPage else page0);
          pageSize1 = (if sint pageSize0 \<le> 0 then DefaultPageSize else pageSize0);
          pageSize = (if sint MaxPageSize < sint pageSize1 then MaxPageSize else pageSize1);
          skip = (page - 1) * pageSize;
          limit = pageSize
      in case FindJobLogs findRpc coll jobName skip limit of
           Inl err \<Rightarrow> ([], 0, Some err)
         | Inr logs \<Rightarrow>
             (case CountJobLogs countRpc coll jobName of
                Inl err \<Rightarrow> (logs, 0, Some err)
              | Inr n \<Rightarrow> (logs, n, None)))"

text \<open>
  \<open>t.AddDate(0, 0, d).Unix()\<close> belongs to Go's \<open>time\<close> package: it moves the calendar
  date of \<open>t\<close> in the server's time zone and has its own range. It is the parameter
  \<open>addDate\<close>, applied to the clock reading and to the number of days.

  A \<open>float64\<close> is kept as the expression that computes it: the zero value of
  \<open>var avgDuration float64\<close>, or the quotient \<open>float64(a) / float64(b)\<close> of two converted
  integers. The rounding of the conversion and of the division is Go's and is not
  evaluated here.
\<close>

datatype float64 = F64_zero | F64_quot int int

text \<open>
  The statistics map as a record. The three counters are Go \<open>int\<close>s that count elements
  of the slice, so they stay below its length; \<open>totalDuration\<close> is an \<open>int64\<close> that
  adds up differences of \<open>int64\<close> fields, and wraps around as it does in Go.
\<close>

record LogStatistics =
  totalCount :: int
  successCount :: int
  failCount :: int
  timeoutCount :: int
  avgDuration :: float64
  period :: int

text \<open>The loop over the logs, on the counters \<open>(successCount, failCount, timeoutCount, totalDuration)\<close>.\<close>

fun tally :: "JobLog list \<Rightarrow> int \<times> int \<times> int \<times> 64 word \<Rightarrow> int \<times> int \<times> int \<times> 64 word" where
  "tally [] acc = acc"
| "tally (l # rest) (sc, fc, tc, td) =
     tally rest
       (if logExitCode l = 0 then sc + 1 else sc,
        if logExitCode l = 0 then fc else fc + 1,
        if logIsTimeout l then tc + 1 else tc,
        td + (word_of_int (logEndTime l) - word_of_int (logStartTime l)))"

text \<open>\<open>days\<close> is a Go \<open>int\<close>, taken at 64 bits and read as two's complement.\<close>

definition GetLogStatistics ::
  "(instant \<Rightarrow> int \<Rightarrow> instant) \<Rightarrow> rpc \<Rightarrow> instant \<Rightarrow> JobLog list \<Rightarrow> string \<Rightarrow> 64 word
     \<Rightarrow> error + LogStatistics" where
  "GetLogStatistics addDate r now coll jobName days0 =
     (let days = (if sint days0 \<le> 0 then 7 else days0);
          startTime = addDate now (sint (- days))
      in case FindJobLogsSince r coll jobName startTime of
           Inl err \<Rightarrow> Inl err
         | Inr logs \<Rightarrow>
             (case tally logs (0, 0, 0, 0) of
                (sc, fc, tc, totalDuration) \<Rightarrow>
                  Inr \<lparr>totalCount = int (length logs), successCount = sc, failCount = fc,
                       timeoutCount = tc,
                       avgDuration = (if length logs > 0
                                      then F64_quot (sint totalDuration) (int (length logs))
                                      else F64_zero),
                       period = sint days\<rparr>))"

section \<open>Sample values\<close>

definition sample_job :: Job where
  "sample_job = \<lparr>Name = ''a'', Command = ''echo hi'', CronExpr = ''* * * * * *'',
     Timeout = 10, Disabled = False, CreatedAt = 100, UpdatedAt = 100\<rparr>"

definition sample_log :: JobLog where
  "sample_log = \<lparr>logJobName = ''a'', logCommand = ''echo hi'', logOutput = ''hi'',
     logError = [], logPlanTime = 200, logScheduleTime = 200, logStartTime = 200,
     logEndTime = 201, logExitCode = 0, logIsTimeout = False, logWorkerIP = ''w1''\<rparr>"

definition sample_sink :: "JobLog list \<Rightarrow> LogSink" where
  "sample_sink buf = \<lparr>logChan = buf, logChanCap = 2, logBatch = [], batchSize = 100,
     sinkLogger = []\<rparr>"

definition sample_etcd :: Etcd where
  "sample_etcd =
     \<lparr>kvs = [''/cron/lock/b'' \<mapsto>
              \<lparr>kvValue = [], kvLease = 3, kvCreateRevision = 7, kvModRevision = 7\<rparr>],
      revision = 7, leases = [3 \<mapsto> 5], lastLease = 3\<rparr>"

definition nameless_job :: Job where
  "nameless_job = \<lparr>Name = [], Command = [], CronExpr = [],
     Timeout = 0, Disabled = False, CreatedAt = 0, UpdatedAt = 0\<rparr>"

definition empty_etcd :: Etcd where
  "empty_etcd = \<lparr>kvs = Map.empty, revision = 1, leases = Map.empty, lastLease = 0\<rparr>"

text \<open>The JSON texts of the sample jobs, as tables for the two directions.\<close>

definition json_nameless_500 :: string where
  \<open>json_nameless_500 =
     ''{"name":"","command":"","cronExpr":"","timeout":0,"disabled":false,"createdAt":500,"updatedAt":500}''\<close>

definition json_a_100 :: string where
  \<open>json_a_100 =
     ''{"name":"a","command":"echo hi","cronExpr":"* * * * * *","timeout":10,"disabled":false,"createdAt":100,"updatedAt":100}''\<close>

definition json_a_600 :: string where
  \<open>json_a_600 =
     ''{"name":"a","command":"echo hi","cronExpr":"* * * * * *","timeout":10,"disabled":false,"createdAt":100,"updatedAt":600}''\<close>

definition json_a_600_disabled :: string where
  \<open>json_a_600_disabled =
     ''{"name":"a","command":"echo hi","cronExpr":"* * * * * *","timeout":10,"disabled":true,"createdAt":100,"updatedAt":600}''\<close>

definition sample_marshal :: marshal where
  "sample_marshal =
     [nameless_job\<lparr>CreatedAt := 500, UpdatedAt := 500\<rparr> \<mapsto> json_nameless_500,
      sample_job \<mapsto> json_a_100,
      sample_job\<lparr>UpdatedAt := 600\<rparr> \<mapsto> json_a_600,
      sample_job\<lparr>Disabled := True, UpdatedAt := 600\<rparr> \<mapsto> json_a_600_disabled]"

definition sample_unmarshal :: unmarshal where
  "sample_unmarshal =
     [json_a_100 \<mapsto> sample_job,
      json_a_600 \<mapsto> sample_job\<lparr>UpdatedAt := 600\<rparr>,
      json_a_600_disabled \<mapsto> sample_job\<lparr>Disabled := True, UpdatedAt := 600\<rparr>]"

definition registry_etcd :: Etcd where
  "registry_etcd =
     \<lparr>kvs = [''/cron/jobs/a'' \<mapsto>
              \<lparr>kvValue = json_a_100, kvLease = 0, kvCreateRevision = 2, kvModRevision = 2\<rparr>],
      revision = 2, leases = Map.empty, lastLease = 0\<rparr>"

definition sample_parse :: "string \<Rightarrow> int option" where
  "sample_parse = [''* * * * * *'' \<mapsto> 1, ''*/5 * * * * *'' \<mapsto> 5]"

definition sample_next :: "int \<Rightarrow> instant \<Rightarrow> instant" where
  "sample_next every t = t - t mod every + every"

definition sample_plan :: "int JobSchedulePlan" where
  "sample_plan = \<lparr>planJob = sample_job, Expr = 1, NextTime = 1001\<rparr>"

definition sample_info :: JobExecuteInfo where
  "sample_info = \<lparr>execJob = sample_job, PlanTime = 1000, RealTime = 1000, CancelSet = True\<rparr>"

definition sample_scheduler :: "int Scheduler" where
  "sample_scheduler = \<lparr>jobPlans = [''a'' \<mapsto> sample_plan], jobExecuting = [''a'' \<mapsto> sample_info]\<rparr>"

definition sample_worker :: "int workerContext" where
  "sample_worker = \<lparr>scheduler = sample_scheduler, logSink = sample_sink []\<rparr>"

definition sample_result :: JobExecuteResult where
  "sample_result = \<lparr>JobName = ''a'', Output = ''hi'', Error = [], StartTime = 1000,
     EndTime = 1001, ExitCode = 0, IsTimeout = False\<rparr>"

definition bad_cron_event :: JobEvent where
  "bad_cron_event = \<lparr>EventType = JobEventSave, evJob = sample_job\<lparr>CronExpr := ''every day''\<rparr>\<rparr>"

definition put_event :: WatchEvent where
  "put_event = \<lparr>wType = EventTypePut, wKey = ''/cron/jobs/a'', wValue = json_a_600\<rparr>"

definition garbled_put_event :: WatchEvent where
  "garbled_put_event = \<lparr>wType = EventTypePut, wKey = ''/cron/jobs/a'', wValue = ''{''\<rparr>"

definition delete_event :: WatchEvent where
  "delete_event = \<lparr>wType = EventTypeDelete, wKey = ''/cron/jobs/a'', wValue = []\<rparr>"

definition timed_out_run :: Execution where
  "timed_out_run = \<lparr>startedAt = 1000, endedAt = 1010, stdout = [],
     runErr = Some (ExitError (- 1) ''signal: killed''), deadlinePassed = True,
     cancelled = False\<rparr>"

definition exit_3_run :: Execution where
  "exit_3_run = \<lparr>startedAt = 1000, endedAt = 1001, stdout = ''hi'',
     runErr = Some (ExitError 3 ''exit status 3''), deadlinePassed = False,
     cancelled = False\<rparr>"

definition launch_failure_run :: Execution where
  "launch_failure_run = \<lparr>startedAt = 1000, endedAt = 1000, stdout = [],
     runErr = Some (OtherError ''fork/exec /bin/sh: resource temporarily unavailable''),
     deadlinePassed = False, cancelled = False\<rparr>"

definition late_success_run :: Execution where
  "late_success_run = \<lparr>startedAt = 1000, endedAt = 1010, stdout = ''hi'',
     runErr = None, deadlinePassed = True, cancelled = False\<rparr>"

definition endless_job :: Job where
  "endless_job = \<lparr>Name = ''tail'', Command = ''tail -f /dev/null'', CronExpr = ''* * * * * *'',
     Timeout = 0, Disabled = False, CreatedAt = 100, UpdatedAt = 100\<rparr>"

definition endless_info :: JobExecuteInfo where
  "endless_info = \<lparr>execJob = endless_job, PlanTime = 1000, RealTime = 1000, CancelSet = False\<rparr>"

text \<open>\<open>AddDate\<close> on a server in UTC, where every day has 86400 seconds.\<close>

definition utc_AddDate :: "instant \<Rightarrow> int \<Rightarrow> instant" where
  "utc_AddDate t d = t + 86400 * d"

definition older_log :: JobLog where
  "older_log = sample_log\<lparr>logStartTime := 900000, logEndTime := 900004, logExitCode := 2\<rparr>"

definition recent_log :: JobLog where
  "recent_log = sample_log\<lparr>logStartTime := 999990, logEndTime := 999992\<rparr>"

definition other_job_log :: JobLog where
  "other_job_log = sample_log\<lparr>logJobName := ''b'', logStartTime := 999000, logEndTime := 999001\<rparr>"

section \<open>Properties\<close>

subsection \<open>Distributed lock\<close>

lemma etcd_wf_createD: "etcd_wf s \<Longrightarrow> kvs s k = Some kv \<Longrightarrow> 0 < kvCreateRevision kv"
  unfolding etcd_wf_def by blast

lemma etcd_wf_leaseD: "etcd_wf s \<Longrightarrow> leases s i = Some ttl \<Longrightarrow> 0 < i \<and> i \<le> lastLease s"
  unfolding etcd_wf_def by blast

lemma CreateRevision_zero_iff:
  "etcd_wf s \<Longrightarrow> CreateRevision s k = 0 \<longleftrightarrow> kvs s k = None"
  using etcd_wf_createD [of s k]
  by (auto simp: CreateRevision_def split: option.splits)

lemma lease_Grant_fresh:
  "etcd_wf s \<Longrightarrow> leases s (fst (lease_Grant s ttl)) = None"
proof -
  assume wf: "etcd_wf s"
  have "leases s (lastLease s + 1) = None"
  proof (cases "leases s (lastLease s + 1)")
    case None
    then show ?thesis .
  next
    case (Some t)
    with wf have "lastLease s + 1 \<le> lastLease s" using etcd_wf_leaseD by blast
    then show ?thesis by simp
  qed
  then show ?thesis by (simp add: lease_Grant_def Let_def)
qed

lemma etcd_wf_lease_Grant: "etcd_wf s \<Longrightarrow> etcd_wf (snd (lease_Grant s ttl))"
  by (fastforce simp: etcd_wf_def lease_Grant_def Let_def split: if_splits)

lemma etcd_wf_kv_Put: "etcd_wf s \<Longrightarrow> etcd_wf (kv_Put s k v l)"
  by (auto simp: etcd_wf_def kv_Put_def Let_def split: if_splits option.splits)

lemma etcd_wf_TryAcquireLock:
  "etcd_wf s \<Longrightarrow> etcd_wf (snd (TryAcquireLock g t s k ttl))"
  using etcd_wf_lease_Grant [of s ttl]
  by (auto simp: TryAcquireLock_def txn_Commit_def etcd_wf_kv_Put
      split: option.splits prod.splits)

text \<open>
  C3. On a well-formed store, with the grant and the transaction both answered:
  when the key does not exist (its create revision is 0) \<open>TryAcquireLock\<close> returns a
  lease id that was not granted before, the store now holds that lease with the given ttl
  and the key with the empty value bound to that lease, and no other key changes;
  when the key exists (its create revision is not 0) it returns
  \<open>ErrLockAlreadyAcquired\<close> and the key-value table is unchanged.
\<close>

theorem TryAcquireLock_cas:
  assumes "etcd_wf s"
  shows "(kvs s key = None \<longrightarrow>
            CreateRevision s key = 0
            \<and> (\<exists>lid. fst (TryAcquireLock None None s key ttl) = Inr lid
                 \<and> leases s lid = None
                 \<and> leases (snd (TryAcquireLock None None s key ttl)) lid = Some ttl
                 \<and> map_option kvLease (kvs (snd (TryAcquireLock None None s key ttl)) key) = Some lid
                 \<and> map_option kvValue (kvs (snd (TryAcquireLock None None s key ttl)) key) = Some []
                 \<and> (\<forall>k. k \<noteq> key \<longrightarrow>
                       kvs (snd (TryAcquireLock None None s key ttl)) k = kvs s k)))
       \<and> (kvs s key \<noteq> None \<longrightarrow>
            CreateRevision s key \<noteq> 0
            \<and> fst (TryAcquireLock None None s key ttl) = Inl ErrLockAlreadyAcquired
            \<and> kvs (snd (TryAcquireLock None None s key ttl)) = kvs s)"
proof (intro conjI impI)
  assume absent: "kvs s key = None"
  show "CreateRevision s key = 0"
    using absent by (simp add: CreateRevision_def)
  have fresh: "leases s (lastLease s + 1) = None"
    using lease_Grant_fresh [OF assms, of ttl] by (simp add: lease_Grant_def Let_def)
  show "\<exists>lid. fst (TryAcquireLock None None s key ttl) = Inr lid
          \<and> leases s lid = None
          \<and> leases (snd (TryAcquireLock None None s key ttl)) lid = Some ttl
          \<and> map_option kvLease (kvs (snd (TryAcquireLock None None s key ttl)) key) = Some lid
          \<and> map_option kvValue (kvs (snd (TryAcquireLock None None s key ttl)) key) = Some []
          \<and> (\<forall>k. k \<noteq> key \<longrightarrow> kvs (snd (TryAcquireLock None None s key ttl)) k = kvs s k)"
    using absent fresh
    by (intro exI [of _ "lastLease s + 1"])
      (simp add: TryAcquireLock_def lease_Grant_def txn_Commit_def CreateRevision_def
        kv_Put_def Let_def)
next
  assume present: "kvs s key \<noteq> None"
  then show nz: "CreateRevision s key \<noteq> 0"
    using CreateRevision_zero_iff [OF assms, of key] by simp
  then have "CreateRevision (snd (lease_Grant s ttl)) key \<noteq> 0"
    by (simp add: CreateRevision_def lease_Grant_def Let_def)
  then show "fst (TryAcquireLock None None s key ttl) = Inl ErrLockAlreadyAcquired"
    and "kvs (snd (TryAcquireLock None None s key ttl)) = kvs s"
    by (simp_all add: TryAcquireLock_def txn_Commit_def lease_Grant_def Let_def
        split: prod.splits)
qed

theorem TryAcquireLock_cas_witness:
  "etcd_wf sample_etcd
   \<and> kvs sample_etcd ''/cron/lock/a'' = None
   \<and> fst (TryAcquireLock None None sample_etcd ''/cron/lock/a'' 5) = Inr 4
   \<and> map_option kvLease
        (kvs (snd (TryAcquireLock None None sample_etcd ''/cron/lock/a'' 5)) ''/cron/lock/a'')
       = Some 4
   \<and> kvs sample_etcd ''/cron/lock/b'' \<noteq> None
   \<and> fst (TryAcquireLock None None sample_etcd ''/cron/lock/b'' 5) = Inl ErrLockAlreadyAcquired
   \<and> kvs (snd (TryAcquireLock None None sample_etcd ''/cron/lock/b'' 5)) = kvs sample_etcd"
proof -
  have wf: "etcd_wf sample_etcd"
    by (auto simp: etcd_wf_def sample_etcd_def split: if_splits)
  have a: "kvs sample_etcd ''/cron/lock/a'' = None"
    and b: "kvs sample_etcd ''/cron/lock/b'' \<noteq> None"
    by (simp_all add: sample_etcd_def)
  have run: "fst (TryAcquireLock None None sample_etcd ''/cron/lock/a'' 5) = Inr 4"
    by (simp add: TryAcquireLock_def lease_Grant_def txn_Commit_def CreateRevision_def
        kv_Put_def Let_def sample_etcd_def)
  from TryAcquireLock_cas [OF wf, of "''/cron/lock/a''" 5] a run
  have "map_option kvLease
          (kvs (snd (TryAcquireLock None None sample_etcd ''/cron/lock/a'' 5)) ''/cron/lock/a'')
        = Some 4"
    by auto
  with TryAcquireLock_cas [OF wf, of "''/cron/lock/b''" 5] wf a b run
  show ?thesis by simp
qed

subsection \<open>Job registry\<close>

lemma SaveJob_ok:
  assumes "enc (job\<lparr>CreatedAt := (if CreatedAt job = 0 then now else CreatedAt job),
                   UpdatedAt := now\<rparr>) = Some d"
  shows "SaveJob enc now None s job =
           (None,
            job\<lparr>CreatedAt := (if CreatedAt job = 0 then now else CreatedAt job), UpdatedAt := now\<rparr>,
            kv_Put s (JobSaveDir @ Name job) d 0)"
proof (cases "CreatedAt job = 0")
  case True
  with assms show ?thesis by (simp add: SaveJob_def etcd_Put_def Let_def)
next
  case False
  with assms show ?thesis by (simp add: SaveJob_def etcd_Put_def Let_def)
qed

text \<open>
  C5 (as amended). \<open>JobManager.SaveJob\<close> validates nothing: for every job, when the
  serialization and the put succeed, it returns no error, stamps \<open>CreatedAt\<close> with the
  clock reading when it is 0 and keeps it otherwise, sets \<open>UpdatedAt\<close> to the clock
  reading, changes no other field, and stores the serialized stamped job under
  \<open>/cron/jobs/<name>\<close>, leaving the other keys alone. The rejection of an empty name,
  command or cron expression is the work of the handler \<open>Server.saveJob\<close>: it answers
  \<open>ApiParamError\<close> and the store is not touched.
\<close>

theorem SaveJob_stamps_and_writes:
  "(enc (job\<lparr>CreatedAt := (if CreatedAt job = 0 then now else CreatedAt job),
              UpdatedAt := now\<rparr>) = Some d \<longrightarrow>
      (case SaveJob enc now None s job of
         (err, job', s') \<Rightarrow>
           err = None
           \<and> CreatedAt job' = (if CreatedAt job = 0 then now else CreatedAt job)
           \<and> UpdatedAt job' = now
           \<and> Name job' = Name job \<and> Command job' = Command job
           \<and> CronExpr job' = CronExpr job \<and> Timeout job' = Timeout job
           \<and> Disabled job' = Disabled job
           \<and> enc job' = Some d
           \<and> map_option kvValue (kvs s' (JobSaveDir @ Name job)) = Some d
           \<and> (\<forall>k. k \<noteq> JobSaveDir @ Name job \<longrightarrow> kvs s' k = kvs s k)))
   \<and> (Name job = [] \<or> Command job = [] \<or> CronExpr job = [] \<longrightarrow>
        Code (fst (saveJob cronErr enc now putRpc s (Inr job))) = ApiParamError
        \<and> snd (saveJob cronErr enc now putRpc s (Inr job)) = s)"
proof (intro conjI impI)
  assume "enc (job\<lparr>CreatedAt := (if CreatedAt job = 0 then now else CreatedAt job),
                   UpdatedAt := now\<rparr>) = Some d"
  then show "case SaveJob enc now None s job of
         (err, job', s') \<Rightarrow>
           err = None
           \<and> CreatedAt job' = (if CreatedAt job = 0 then now else CreatedAt job)
           \<and> UpdatedAt job' = now
           \<and> Name job' = Name job \<and> Command job' = Command job
           \<and> CronExpr job' = CronExpr job \<and> Timeout job' = Timeout job
           \<and> Disabled job' = Disabled job
           \<and> enc job' = Some d
           \<and> map_option kvValue (kvs s' (JobSaveDir @ Name job)) = Some d
           \<and> (\<forall>k. k \<noteq> JobSaveDir @ Name job \<longrightarrow> kvs s' k = kvs s k)"
    by (simp add: SaveJob_ok kv_Put_def Let_def)
next
  assume "Name job = [] \<or> Command job = [] \<or> CronExpr job = []"
  then show "Code (fst (saveJob cronErr enc now putRpc s (Inr job))) = ApiParamError"
    and "snd (saveJob cronErr enc now putRpc s (Inr job)) = s"
    by (auto simp: saveJob_def failure_def)
qed

theorem SaveJob_stamps_and_writes_witness:
  "sample_marshal (sample_job\<lparr>UpdatedAt := 600\<rparr>) = Some json_a_600
   \<and> fst (SaveJob sample_marshal 600 None empty_etcd sample_job) = None
   \<and> map_option kvValue
        (kvs (snd (snd (SaveJob sample_marshal 600 None empty_etcd sample_job))) ''/cron/jobs/a'')
       = Some json_a_600
   \<and> Name nameless_job = []
   \<and> Code (fst (saveJob Map.empty sample_marshal 500 None empty_etcd (Inr nameless_job)))
       = ApiParamError
   \<and> snd (saveJob Map.empty sample_marshal 500 None empty_etcd (Inr nameless_job)) = empty_etcd"
proof -
  have enc0: "sample_marshal (sample_job\<lparr>UpdatedAt := 600\<rparr>) = Some json_a_600"
    by (simp add: sample_marshal_def sample_job_def nameless_job_def)
  have created: "CreatedAt sample_job \<noteq> 0"
    by (simp add: sample_job_def)
  have enc: "sample_marshal (sample_job\<lparr>CreatedAt := (if CreatedAt sample_job = 0 then 600
                                           else CreatedAt sample_job),
                                         UpdatedAt := 600\<rparr>) = Some json_a_600"
    using enc0 created by simp
  have nm: "Name nameless_job = []"
    by (simp add: nameless_job_def)
  have key: "JobSaveDir @ Name sample_job = ''/cron/jobs/a''"
    by (simp add: JobSaveDir_def sample_job_def)
  obtain err job' s' where
    run: "SaveJob sample_marshal 600 None empty_etcd sample_job = (err, job', s')"
    by (cases "SaveJob sample_marshal 600 None empty_etcd sample_job")
  note save = SaveJob_stamps_and_writes
         [where enc = sample_marshal and job = sample_job and now = 600 and d = json_a_600
            and s = empty_etcd, THEN conjunct1, rule_format, OF enc]
  from save run key have saved:
    "err = None" "map_option kvValue (kvs s' ''/cron/jobs/a'') = Some json_a_600"
    by simp_all
  note reject = SaveJob_stamps_and_writes
         [where job = nameless_job and cronErr = Map.empty and enc = sample_marshal
            and now = 500 and putRpc = None and s = empty_etcd, THEN conjunct2, rule_format,
          OF disjI1, OF nm]
  from reject have rejected:
    "Code (fst (saveJob Map.empty sample_marshal 500 None empty_etcd (Inr nameless_job)))
       = ApiParamError"
    "snd (saveJob Map.empty sample_marshal 500 None empty_etcd (Inr nameless_job)) = empty_etcd"
    by (rule conjunct1, rule conjunct2)
  from enc0 saved rejected nm run show ?thesis by simp
qed

text \<open>
  The claim as it was stated fails on \<open>JobManager.SaveJob\<close>: a job whose name, command
  and cron expression are all empty is accepted and written under \<open>/cron/jobs/\<close>.
\<close>

theorem SaveJob_accepts_empty_fields:
  "Name nameless_job = [] \<and> Command nameless_job = [] \<and> CronExpr nameless_job = []
   \<and> fst (SaveJob sample_marshal 500 None empty_etcd nameless_job) = None
   \<and> map_option kvValue
        (kvs (snd (snd (SaveJob sample_marshal 500 None empty_etcd nameless_job))) ''/cron/jobs/'')
       = Some json_nameless_500"
  by (simp add: SaveJob_def etcd_Put_def kv_Put_def Let_def nameless_job_def sample_job_def
      sample_marshal_def empty_etcd_def JobSaveDir_def)

lemma GetJob_kv_Put:
  "dec d = Some j \<Longrightarrow> GetJob dec None (kv_Put s (JobSaveDir @ name) d l) name = Inr j"
  by (simp add: GetJob_def etcd_Get_def kv_Put_def Let_def)

lemma DisableJob_ok:
  assumes "GetJob dec None s name = Inr job"
    and "CreatedAt job \<noteq> 0"
    and "enc (job\<lparr>Disabled := True, UpdatedAt := now'\<rparr>) = Some d"
  shows "DisableJob enc dec now now' None None s name
           = (None, kv_Put s (JobSaveDir @ Name job) d 0)"
  using assms by (simp add: DisableJob_def SaveJob_def etcd_Put_def Let_def)

lemma EnableJob_ok:
  assumes "GetJob dec None s name = Inr job"
    and "CreatedAt job \<noteq> 0"
    and "enc (job\<lparr>Disabled := False, UpdatedAt := now'\<rparr>) = Some d"
  shows "EnableJob enc dec now now' None None s name
           = (None, kv_Put s (JobSaveDir @ Name job) d 0)"
  using assms by (simp add: EnableJob_def SaveJob_def etcd_Put_def Let_def)

text \<open>
  C10. Let \<open>job\<close> be the job stored under \<open>/cron/jobs/<name>\<close>, carrying that name, with
  \<open>CreatedAt\<close> not 0, and let the store answer and the codec round-trip the updated
  job. Then \<open>DisableJob\<close> and \<open>EnableJob\<close> return no error, and the job read back by
  \<open>GetJob\<close> afterwards has the name, command, cron expression, timeout and
  \<open>CreatedAt\<close> of \<open>job\<close>, \<open>UpdatedAt\<close> equal to the clock reading of \<open>SaveJob\<close>,
  and \<open>Disabled\<close> true after \<open>DisableJob\<close>, false after \<open>EnableJob\<close>.
\<close>

theorem DisableJob_EnableJob_frame:
  assumes stored: "GetJob dec None s name = Inr job"
    and own: "Name job = name"
    and created: "CreatedAt job \<noteq> 0"
    and encD: "enc (job\<lparr>Disabled := True, UpdatedAt := now'\<rparr>) = Some dD"
    and decD: "dec dD = Some (job\<lparr>Disabled := True, UpdatedAt := now'\<rparr>)"
    and encE: "enc (job\<lparr>Disabled := False, UpdatedAt := now'\<rparr>) = Some dE"
    and decE: "dec dE = Some (job\<lparr>Disabled := False, UpdatedAt := now'\<rparr>)"
  shows "fst (DisableJob enc dec now now' None None s name) = None
     \<and> (\<exists>job'. GetJob dec None (snd (DisableJob enc dec now now' None None s name)) name = Inr job'
           \<and> Name job' = Name job \<and> Command job' = Command job
           \<and> CronExpr job' = CronExpr job \<and> Timeout job' = Timeout job
           \<and> CreatedAt job' = CreatedAt job
           \<and> Disabled job' \<and> UpdatedAt job' = now')
     \<and> fst (EnableJob enc dec now now' None None s name) = None
     \<and> (\<exists>job'. GetJob dec None (snd (EnableJob enc dec now now' None None s name)) name = Inr job'
           \<and> Name job' = Name job \<and> Command job' = Command job
           \<and> CronExpr job' = CronExpr job \<and> Timeout job' = Timeout job
           \<and> CreatedAt job' = CreatedAt job
           \<and> \<not> Disabled job' \<and> UpdatedAt job' = now')"
proof -
  have d: "DisableJob enc dec now now' None None s name
             = (None, kv_Put s (JobSaveDir @ name) dD 0)"
    using DisableJob_ok [where enc = enc and now' = now', OF stored created encD] own by simp
  have e: "EnableJob enc dec now now' None None s name
             = (None, kv_Put s (JobSaveDir @ name) dE 0)"
    using EnableJob_ok [where enc = enc and now' = now', OF stored created encE] own by simp
  show ?thesis
    unfolding d e fst_conv snd_conv
      GetJob_kv_Put [where dec = dec, OF decD] GetJob_kv_Put [where dec = dec, OF decE]
    by simp
qed

theorem DisableJob_EnableJob_frame_witness:
  "GetJob sample_unmarshal None registry_etcd ''a'' = Inr sample_job
   \<and> Name sample_job = ''a'' \<and> CreatedAt sample_job \<noteq> 0
   \<and> fst (DisableJob sample_marshal sample_unmarshal 599 600 None None registry_etcd ''a'') = None
   \<and> GetJob sample_unmarshal None
        (snd (DisableJob sample_marshal sample_unmarshal 599 600 None None registry_etcd ''a'')) ''a''
       = Inr (sample_job\<lparr>Disabled := True, UpdatedAt := 600\<rparr>)
   \<and> GetJob sample_unmarshal None
        (snd (EnableJob sample_marshal sample_unmarshal 599 600 None None registry_etcd ''a'')) ''a''
       = Inr (sample_job\<lparr>Disabled := False, UpdatedAt := 600\<rparr>)"
proof -
  have strs: "json_a_600 \<noteq> json_a_600_disabled" "json_a_100 \<noteq> json_a_600_disabled"
    "json_a_100 \<noteq> json_a_600"
    by (simp_all add: json_a_600_def json_a_600_disabled_def json_a_100_def)
  have stored: "GetJob sample_unmarshal None registry_etcd ''a'' = Inr sample_job"
    using strs by (simp add: GetJob_def etcd_Get_def registry_etcd_def JobSaveDir_def sample_unmarshal_def)
  have own: "Name sample_job = ''a''" and created: "CreatedAt sample_job \<noteq> 0"
    by (simp_all add: sample_job_def)
  have encD: "sample_marshal (sample_job\<lparr>Disabled := True, UpdatedAt := 600\<rparr>)
                = Some json_a_600_disabled"
    by (simp add: sample_marshal_def sample_job_def nameless_job_def)
  have encE: "sample_marshal (sample_job\<lparr>Disabled := False, UpdatedAt := 600\<rparr>)
                = Some json_a_600"
    by (simp add: sample_marshal_def sample_job_def nameless_job_def)
  have decD: "sample_unmarshal json_a_600_disabled
                = Some (sample_job\<lparr>Disabled := True, UpdatedAt := 600\<rparr>)"
    using strs by (simp add: sample_unmarshal_def)
  have decE: "sample_unmarshal json_a_600
                = Some (sample_job\<lparr>Disabled := False, UpdatedAt := 600\<rparr>)"
    using strs by (simp add: sample_unmarshal_def sample_job_def)
  note frame = DisableJob_EnableJob_frame
      [where now = 599 and enc = sample_marshal and now' = 600 and dec = sample_unmarshal,
       OF stored own created encD decD encE decE]
  have d: "DisableJob sample_marshal sample_unmarshal 599 600 None None registry_etcd ''a''
             = (None, kv_Put registry_etcd (JobSaveDir @ ''a'') json_a_600_disabled 0)"
    using DisableJob_ok [where enc = sample_marshal and now' = 600, OF stored created encD] own
    by simp
  have e: "EnableJob sample_marshal sample_unmarshal 599 600 None None registry_etcd ''a''
             = (None, kv_Put registry_etcd (JobSaveDir @ ''a'') json_a_600 0)"
    using EnableJob_ok [where enc = sample_marshal and now' = 600, OF stored created encE] own
    by simp
  from frame stored own created show ?thesis
    unfolding d e fst_conv snd_conv
      GetJob_kv_Put [where dec = sample_unmarshal, OF decD]
      GetJob_kv_Put [where dec = sample_unmarshal, OF decE]
    by simp
qed

subsection \<open>Job cache of the worker\<close>

text \<open>
  C8. For a watch delta handled by the job cache: a Put whose value decodes to \<open>job\<close>
  stores \<open>job\<close> under its name, leaves the other entries alone and yields the event
  \<open>{Save, job}\<close>; a Delete for a name cached as \<open>job\<close> removes that entry, leaves the
  others alone and yields \<open>{Delete, job}\<close>; a Delete for a name that is not cached yields
  no event and leaves the cache unchanged; a Put whose value does not decode yields no event
  and leaves the cache unchanged.
\<close>

theorem handleWatchEvent_cases:
  "(wType event = EventTypePut \<and> dec (wValue event) = Some job \<longrightarrow>
      fst (handleWatchEvent dec cache event) = Some \<lparr>EventType = JobEventSave, evJob = job\<rparr>
      \<and> snd (handleWatchEvent dec cache event) (Name job) = Some job
      \<and> (\<forall>n. n \<noteq> Name job \<longrightarrow> snd (handleWatchEvent dec cache event) n = cache n))
   \<and> (wType event = EventTypeDelete \<and> cache (watchedJobName (wKey event)) = Some job \<longrightarrow>
      fst (handleWatchEvent dec cache event) = Some \<lparr>EventType = JobEventDelete, evJob = job\<rparr>
      \<and> snd (handleWatchEvent dec cache event) (watchedJobName (wKey event)) = None
      \<and> (\<forall>n. n \<noteq> watchedJobName (wKey event) \<longrightarrow>
            snd (handleWatchEvent dec cache event) n = cache n))
   \<and> (wType event = EventTypeDelete \<and> cache (watchedJobName (wKey event)) = None \<longrightarrow>
      handleWatchEvent dec cache event = (None, cache))
   \<and> (wType event = EventTypePut \<and> dec (wValue event) = None \<longrightarrow>
      handleWatchEvent dec cache event = (None, cache))"
  by (simp add: handleWatchEvent_def Let_def)

lemma watchedJobName_a: "watchedJobName ''/cron/jobs/a'' = ''a''"
  by (simp add: watchedJobName_def JobSaveDir_def)

theorem handleWatchEvent_cases_witness:
  "wType put_event = EventTypePut
   \<and> sample_unmarshal (wValue put_event) = Some (sample_job\<lparr>UpdatedAt := 600\<rparr>)
   \<and> fst (handleWatchEvent sample_unmarshal [''a'' \<mapsto> sample_job] put_event)
       = Some \<lparr>EventType = JobEventSave, evJob = sample_job\<lparr>UpdatedAt := 600\<rparr>\<rparr>
   \<and> snd (handleWatchEvent sample_unmarshal [''a'' \<mapsto> sample_job] put_event) ''a''
       = Some (sample_job\<lparr>UpdatedAt := 600\<rparr>)
   \<and> wType delete_event = EventTypeDelete
   \<and> fst (handleWatchEvent sample_unmarshal [''a'' \<mapsto> sample_job] delete_event)
       = Some \<lparr>EventType = JobEventDelete, evJob = sample_job\<rparr>
   \<and> snd (handleWatchEvent sample_unmarshal [''a'' \<mapsto> sample_job] delete_event) ''a'' = None
   \<and> handleWatchEvent sample_unmarshal Map.empty delete_event = (None, Map.empty)
   \<and> sample_unmarshal (wValue garbled_put_event) = None
   \<and> handleWatchEvent sample_unmarshal [''a'' \<mapsto> sample_job] garbled_put_event
       = (None, [''a'' \<mapsto> sample_job])"
proof -
  have strs: "json_a_600 \<noteq> json_a_600_disabled" "json_a_100 \<noteq> json_a_600"
    "''{'' \<noteq> json_a_600_disabled" "''{'' \<noteq> json_a_600" "''{'' \<noteq> json_a_100"
    by (simp_all add: json_a_600_def json_a_600_disabled_def json_a_100_def)
  have p: "wType put_event = EventTypePut"
    and pd: "sample_unmarshal (wValue put_event) = Some (sample_job\<lparr>UpdatedAt := 600\<rparr>)"
    using strs by (simp_all add: put_event_def sample_unmarshal_def)
  have d: "wType delete_event = EventTypeDelete"
    and dk: "watchedJobName (wKey delete_event) = ''a''"
    by (simp_all add: delete_event_def watchedJobName_a)
  have g: "wType garbled_put_event = EventTypePut"
    and gd: "sample_unmarshal (wValue garbled_put_event) = None"
    using strs by (simp_all add: garbled_put_event_def sample_unmarshal_def)
  have nm: "Name (sample_job\<lparr>UpdatedAt := 600\<rparr>) = ''a''"
    by (simp add: sample_job_def)
  note put = handleWatchEvent_cases
      [where event = put_event and dec = sample_unmarshal and cache = "[''a'' \<mapsto> sample_job]",
       THEN conjunct1, rule_format, OF conjI, OF p pd]
  note del = handleWatchEvent_cases
      [where event = delete_event and dec = sample_unmarshal
         and cache = "[''a'' \<mapsto> sample_job]" and job = sample_job,
       THEN conjunct2, THEN conjunct1, rule_format, OF conjI, OF d]
  note del_absent = handleWatchEvent_cases
      [where event = delete_event and dec = sample_unmarshal and cache = Map.empty,
       THEN conjunct2, THEN conjunct2, THEN conjunct1, rule_format, OF conjI, OF d]
  note garbled = handleWatchEvent_cases
      [where event = garbled_put_event and dec = sample_unmarshal
         and cache = "[''a'' \<mapsto> sample_job]",
       THEN conjunct2, THEN conjunct2, THEN conjunct2, rule_format, OF conjI, OF g gd]
  from put del del_absent garbled p pd d dk gd nm show ?thesis
    by simp
qed

subsection \<open>Scheduler\<close>

text \<open>
  C2 (as amended). When the scheduler handles a Save event with \<open>Disabled\<close> false whose
  cron expression fails to parse, the scheduler is left exactly as it was: no plan is
  added, and a plan that was present for that job name stays in the plan table.
\<close>

theorem handleJobEvent_parse_failure:
  assumes "EventType event = JobEventSave"
    and "\<not> Disabled (evJob event)"
    and "parse (CronExpr (evJob event)) = None"
  shows "handleJobEvent parse nextAfter now s event = s"
  using assms by (simp add: handleJobEvent_def Let_def)

theorem handleJobEvent_parse_failure_witness:
  "EventType bad_cron_event = JobEventSave
   \<and> \<not> Disabled (evJob bad_cron_event)
   \<and> sample_parse (CronExpr (evJob bad_cron_event)) = None
   \<and> handleJobEvent sample_parse sample_next 1000 sample_scheduler bad_cron_event
       = sample_scheduler"
proof -
  have a: "EventType bad_cron_event = JobEventSave"
    and b: "\<not> Disabled (evJob bad_cron_event)"
    and c: "sample_parse (CronExpr (evJob bad_cron_event)) = None"
    by (simp_all add: bad_cron_event_def sample_job_def sample_parse_def)
  from handleJobEvent_parse_failure [where parse = sample_parse, OF a b c] a b c
  show ?thesis by simp
qed

text \<open>
  The claim as it was stated fails: the plan that was present for the job name is still
  in the plan table after the Save event with the unparseable expression.
\<close>

theorem handleJobEvent_keeps_plan_on_parse_failure:
  "EventType bad_cron_event = JobEventSave
   \<and> \<not> Disabled (evJob bad_cron_event)
   \<and> sample_parse (CronExpr (evJob bad_cron_event)) = None
   \<and> Name (evJob bad_cron_event) = ''a''
   \<and> jobPlans sample_scheduler ''a'' = Some sample_plan
   \<and> jobPlans (handleJobEvent sample_parse sample_next 1000 sample_scheduler bad_cron_event) ''a''
       = Some sample_plan"
  by (simp add: handleJobEvent_def Let_def bad_cron_event_def sample_job_def sample_parse_def
      sample_scheduler_def JobEventSave_def)

subsection \<open>Results of executions\<close>

lemma receiveResult_one_effect:
  "logSink (receiveResult workerID SchedulerLoop wctx result) = logSink wctx
   \<and> scheduler (receiveResult workerID ResultHandler wctx result) = scheduler wctx"
  by (simp add: receiveResult_def handleExecuteResult_def split: option.splits)

text \<open>
  C1, evaluated on a worker whose in-flight table holds job \<open>a\<close> and whose log channel is
  empty, for a result of job \<open>a\<close>. Received by the scheduler's loop, the entry is removed and
  nothing reaches the log sink. Received by \<open>handleExecuteResults\<close>, one log reaches the
  log sink and the entry stays in the in-flight table.
\<close>

theorem receiveResult_removes_or_logs:
  "jobExecuting (scheduler (receiveResult ''w1'' SchedulerLoop sample_worker sample_result)) ''a''
     = None
   \<and> logChan (logSink (receiveResult ''w1'' SchedulerLoop sample_worker sample_result)) = []
   \<and> logChan (logSink (receiveResult ''w1'' ResultHandler sample_worker sample_result))
       = [BuildJobLog ''w1'' sample_result sample_info]
   \<and> jobExecuting (scheduler (receiveResult ''w1'' ResultHandler sample_worker sample_result)) ''a''
       = Some sample_info"
  by (simp add: receiveResult_def handleJobResult_def handleExecuteResult_def
      GetExecutingJobs_def Append_def sample_worker_def sample_scheduler_def sample_sink_def
      sample_result_def)

subsection \<open>Executor\<close>

text \<open>
  C4 (as amended). An execution sends one result on the result channel when \<open>cmd.Run\<close>
  returns, and none as long as it does not return. The result carries the job's name, and
  the failures are classified in this order: when \<open>cmd.Run\<close> returned an error and the
  context ended by its deadline (the job has a positive timeout and it elapsed), the result
  has \<open>IsTimeout\<close> true, exit code -1 and the error text "job execution timed out";
  otherwise, when the child exited nonzero, the result carries the child's exit code (and
  the error's text); otherwise the result has exit code -1 and the text of the underlying
  error. When \<open>cmd.Run\<close> returned no error the exit code is 0, the error text is empty
  and \<open>IsTimeout\<close> is false, whether or not the deadline has passed.
\<close>

theorem ExecuteJob_emits_on_return:
  "snd (ExecuteJob jobResults info (Returns x)) = jobResults @ [executeResult info x]
   \<and> snd (ExecuteJob jobResults info NeverReturns) = jobResults
   \<and> JobName (executeResult info x) = Name (execJob info)
   \<and> (runErr x \<noteq> None \<and> 0 < Timeout (execJob info) \<and> deadlinePassed x \<longrightarrow>
        IsTimeout (executeResult info x)
        \<and> ExitCode (executeResult info x) = - 1
        \<and> Error (executeResult info x) = ''job execution timed out'')
   \<and> (runErr x = Some (ExitError code text) \<and> \<not> (0 < Timeout (execJob info) \<and> deadlinePassed x) \<longrightarrow>
        ExitCode (executeResult info x) = code
        \<and> Error (executeResult info x) = text
        \<and> \<not> IsTimeout (executeResult info x))
   \<and> (runErr x = Some (OtherError text) \<and> \<not> (0 < Timeout (execJob info) \<and> deadlinePassed x) \<longrightarrow>
        ExitCode (executeResult info x) = - 1
        \<and> Error (executeResult info x) = text
        \<and> \<not> IsTimeout (executeResult info x))
   \<and> (runErr x = None \<longrightarrow>
        ExitCode (executeResult info x) = 0
        \<and> Error (executeResult info x) = []
        \<and> \<not> IsTimeout (executeResult info x))"
  by (auto simp: ExecuteJob_def executeResult_def ctxErr_def Let_def
      split: option.splits RunError.splits)

theorem ExecuteJob_emits_on_return_witness:
  "runErr timed_out_run \<noteq> None \<and> 0 < Timeout (execJob sample_info) \<and> deadlinePassed timed_out_run
   \<and> IsTimeout (executeResult sample_info timed_out_run)
   \<and> ExitCode (executeResult sample_info timed_out_run) = - 1
   \<and> Error (executeResult sample_info timed_out_run) = ''job execution timed out''
   \<and> runErr exit_3_run = Some (ExitError 3 ''exit status 3'')
   \<and> ExitCode (executeResult sample_info exit_3_run) = 3
   \<and> runErr launch_failure_run
       = Some (OtherError ''fork/exec /bin/sh: resource temporarily unavailable'')
   \<and> ExitCode (executeResult sample_info launch_failure_run) = - 1
   \<and> Error (executeResult sample_info launch_failure_run)
       = ''fork/exec /bin/sh: resource temporarily unavailable''
   \<and> snd (ExecuteJob [] sample_info (Returns launch_failure_run))
       = [executeResult sample_info launch_failure_run]
   \<and> runErr late_success_run = None
   \<and> ExitCode (executeResult sample_info late_success_run) = 0"
proof -
  have t: "runErr timed_out_run \<noteq> None \<and> 0 < Timeout (execJob sample_info)
             \<and> deadlinePassed timed_out_run"
    by (simp add: timed_out_run_def sample_info_def sample_job_def)
  have e: "runErr exit_3_run = Some (ExitError 3 ''exit status 3'')
             \<and> \<not> (0 < Timeout (execJob sample_info) \<and> deadlinePassed exit_3_run)"
    by (simp add: exit_3_run_def)
  have l: "runErr launch_failure_run
             = Some (OtherError ''fork/exec /bin/sh: resource temporarily unavailable'')
           \<and> \<not> (0 < Timeout (execJob sample_info) \<and> deadlinePassed launch_failure_run)"
    by (simp add: launch_failure_run_def)
  have n: "runErr late_success_run = None"
    by (simp add: late_success_run_def)
  note timed = ExecuteJob_emits_on_return
      [where info = sample_info and x = timed_out_run,
       THEN conjunct2, THEN conjunct2, THEN conjunct2, THEN conjunct1, rule_format, OF t]
  note exited = ExecuteJob_emits_on_return
      [where info = sample_info and x = exit_3_run,
       THEN conjunct2, THEN conjunct2, THEN conjunct2, THEN conjunct2, THEN conjunct1,
       rule_format, OF e]
  note failed = ExecuteJob_emits_on_return
      [where info = sample_info and x = launch_failure_run,
       THEN conjunct2, THEN conjunct2, THEN conjunct2, THEN conjunct2, THEN conjunct2,
       THEN conjunct1, rule_format, OF l]
  note sent = ExecuteJob_emits_on_return
      [where info = sample_info and x = launch_failure_run and jobResults = "[]",
       THEN conjunct1]
  note ok = ExecuteJob_emits_on_return
      [where info = sample_info and x = late_success_run,
       THEN conjunct2, THEN conjunct2, THEN conjunct2, THEN conjunct2, THEN conjunct2,
       THEN conjunct2, rule_format, OF n]
  from timed exited failed sent ok t e l n show ?thesis
    by simp
qed

text \<open>
  The claim as it was stated fails twice. A job with timeout 0 whose command never exits
  and is never killed sends no result: \<open>cmd.Run\<close> does not return. And when the child
  exits with status 0 just before the deadline and the deadline passes while the goroutine
  is still at work (it may wait at the send), the context has ended by the timeout but the
  result has \<open>IsTimeout\<close> false and exit code 0: the context is only looked at after an
  error of \<open>cmd.Run\<close>.
\<close>

theorem ExecuteJob_no_result_no_timeout_flag:
  "Timeout (execJob endless_info) = 0
   \<and> snd (ExecuteJob [] endless_info NeverReturns) = []
   \<and> 0 < Timeout (execJob sample_info)
   \<and> deadlinePassed late_success_run
   \<and> ctxErr sample_info late_success_run = Some DeadlineExceeded
   \<and> snd (ExecuteJob [] sample_info (Returns late_success_run))
       = [\<lparr>JobName = ''a'', Output = ''hi'', Error = [], StartTime = 1000, EndTime = 1010,
           ExitCode = 0, IsTimeout = False\<rparr>]"
  by (simp add: ExecuteJob_def executeResult_def ctxErr_def Let_def endless_info_def
      endless_job_def sample_info_def sample_job_def late_success_run_def)

subsection \<open>Log manager\<close>

lemma skip_no_wrap:
  fixes p ps :: "64 word"
  assumes "1 \<le> sint p" and "sint p \<le> 92233720368547758"
    and "1 \<le> sint ps" and "sint ps \<le> 100"
  shows "sint ((p - 1) * ps) = (sint p - 1) * sint ps"
proof -
  have pm: "sint (p - 1) = sint p - 1"
  proof -
    have "sint (p - 1) = signed_take_bit 63 (sint p - 1)"
      by (simp add: sint_word_ariths)
    also have "\<dots> = sint p - 1"
      using assms by (intro signed_take_bit_int_eq_self) simp_all
    finally show ?thesis .
  qed
  have lo: "0 \<le> (sint p - 1) * sint ps"
    using assms by simp
  have "(sint p - 1) * sint ps \<le> 92233720368547757 * 100"
    using assms by (intro mult_mono) simp_all
  then have hi: "(sint p - 1) * sint ps < 2 ^ 63"
    by simp
  have "sint ((p - 1) * ps) = signed_take_bit 63 (sint (p - 1) * sint ps)"
    by (simp add: sint_word_ariths)
  also have "\<dots> = (sint p - 1) * sint ps"
    unfolding pm using lo hi by (intro signed_take_bit_int_eq_self) simp_all
  finally show ?thesis .
qed

text \<open>
  What \<open>ListLogs\<close> does on every input. It works with the page \<open>p\<close> and the page
  size \<open>ps\<close> obtained from its inputs by: a page of 0 or less becomes \<open>DefaultPage\<close>
  = 1, a page size of 0 or less becomes \<open>DefaultPageSize\<close> = 10, a page size above
  \<open>MaxPageSize\<close> = 100 becomes 100; so \<open>p\<close> is at least 1 and \<open>ps\<close> lies between 1
  and 100. With the store answering and the 64-bit product \<open>(p - 1) * ps\<close> not negative,
  it returns the records found with that skip and limit \<open>ps\<close> among the logs of the job,
  newest start time first, together with the number of logs of the job; the empty job name
  selects the logs of all jobs. The 64-bit product is the product of the integers
  whenever the page is at most 92233720368547758.
\<close>

lemma ListLogs_pagination:
  "let p = (if sint page \<le> 0 then DefaultPage else page);
       ps = (if sint pageSize \<le> 0 then DefaultPageSize
             else if sint MaxPageSize < sint pageSize then MaxPageSize else pageSize);
       skip = (p - 1) * ps;
       selected = filter (jobNameFilter jobName) coll
   in DefaultPage = 1 \<and> DefaultPageSize = 10 \<and> MaxPageSize = 100
      \<and> 1 \<le> sint p \<and> 1 \<le> sint ps \<and> sint ps \<le> 100
      \<and> (0 \<le> sint skip \<longrightarrow>
            ListLogs None None coll jobName page pageSize =
              (take (nat (sint ps))
                 (drop (nat (sint skip)) (sort_key (\<lambda>l. - logStartTime l) selected)),
               int (length selected), None))
      \<and> (jobName = [] \<longrightarrow> selected = coll)
      \<and> (sint p \<le> 92233720368547758 \<longrightarrow> sint skip = (sint p - 1) * sint ps)"
proof -
  define p where "p = (if sint page \<le> 0 then DefaultPage else page)"
  define ps where "ps = (if sint pageSize \<le> 0 then DefaultPageSize
             else if sint MaxPageSize < sint pageSize then MaxPageSize else pageSize)"
  define selected where "selected = filter (jobNameFilter jobName) coll"
  have cs: "DefaultPage = 1" "DefaultPageSize = 10" "MaxPageSize = 100"
    by (simp_all add: DefaultPage_def DefaultPageSize_def MaxPageSize_def)
  have p1: "1 \<le> sint p"
    by (simp add: p_def cs)
  have ps1: "1 \<le> sint ps" and ps100: "sint ps \<le> 100"
    by (simp_all add: ps_def cs)
  have code_ps: "(if sint MaxPageSize < sint (if sint pageSize \<le> 0 then DefaultPageSize else pageSize)
                  then MaxPageSize
                  else (if sint pageSize \<le> 0 then DefaultPageSize else pageSize)) = ps"
    by (simp add: ps_def cs)
  have run: "0 \<le> sint ((p - 1) * ps) \<Longrightarrow>
      ListLogs None None coll jobName page pageSize =
        (take (nat (sint ps))
           (drop (nat (sint ((p - 1) * ps))) (sort_key (\<lambda>l. - logStartTime l) selected)),
         int (length selected), None)"
    unfolding ListLogs_def Let_def code_ps p_def [symmetric]
    using ps1 by (auto simp: FindJobLogs_def CountJobLogs_def Let_def selected_def)
  have all: "jobName = [] \<Longrightarrow> selected = coll"
    by (simp add: selected_def jobNameFilter_def)
  have nowrap: "sint p \<le> 92233720368547758 \<Longrightarrow> sint ((p - 1) * ps) = (sint p - 1) * sint ps"
    using skip_no_wrap [OF p1 _ ps1 ps100] by simp
  from cs p1 ps1 ps100 run all nowrap show ?thesis
    unfolding Let_def p_def ps_def selected_def by simp
qed

lemma ListLogs_pagination_examples:
  "ListLogs None None [recent_log, older_log, other_job_log] [] 2 1 = ([other_job_log], 3, None)
   \<and> ListLogs None None [recent_log, older_log, other_job_log] ''a'' 0 0
       = ([recent_log, older_log], 2, None)
   \<and> ListLogs None None [recent_log, older_log, other_job_log] ''a'' 1 200
       = ([recent_log, older_log], 2, None)"
  using ListLogs_pagination
      [where page = 2 and pageSize = 1 and jobName = "[]"
         and coll = "[recent_log, older_log, other_job_log]"]
    ListLogs_pagination
      [where page = 0 and pageSize = 0 and jobName = "''a''"
         and coll = "[recent_log, older_log, other_job_log]"]
    ListLogs_pagination
      [where page = 1 and pageSize = 200 and jobName = "''a''"
         and coll = "[recent_log, older_log, other_job_log]"]
  by (simp add: Let_def DefaultPage_def DefaultPageSize_def MaxPageSize_def jobNameFilter_def
      recent_log_def older_log_def other_job_log_def sample_log_def)

text \<open>
  C6, evaluated where the product leaves the 64-bit range. For page 6148914691236517207 and
  page size 3 no clamp applies and \<open>(page - 1) * pageSize\<close> is 18446744073709551618; the
  skip \<open>ListLogs\<close> computes is that number wrapped to 2, so from a collection of three
  logs it returns the third one, where a skip of \<open>(page - 1) * pageSize\<close> leaves no
  record. For page 92233720368547760 and page size 100 the product wraps to a negative
  skip, the store refuses the query, and \<open>ListLogs\<close> returns the error with neither records
  nor total.
\<close>

theorem ListLogs_skip_wraps:
  "((6148914691236517207 :: int) - 1) * 3 = 18446744073709551618
   \<and> ((6148914691236517207 :: 64 word) - 1) * 3 = 2
   \<and> ListLogs None None [recent_log, older_log, other_job_log] [] 6148914691236517207 3
       = ([older_log], 3, None)
   \<and> drop 18446744073709551618
        (sort_key (\<lambda>l. - logStartTime l)
           (filter (jobNameFilter []) [recent_log, older_log, other_job_log])) = []
   \<and> ListLogs None None [recent_log, older_log, other_job_log] [] 92233720368547760 100
       = ([], 0, Some (MongoError ''find_job_logs'' ''job_logs'' ''negative skip''))"
  by (simp add: ListLogs_def FindJobLogs_def CountJobLogs_def Let_def DefaultPage_def
      DefaultPageSize_def MaxPageSize_def LogCollectionName_def jobNameFilter_def
      recent_log_def older_log_def other_job_log_def sample_log_def)

lemma tally_counts:
  "tally logs (sc, fc, tc, td) =
     (sc + int (length (filter (\<lambda>l. logExitCode l = 0) logs)),
      fc + int (length (filter (\<lambda>l. logExitCode l \<noteq> 0) logs)),
      tc + int (length (filter logIsTimeout logs)),
      td + word_of_int (\<Sum>l\<leftarrow>logs. logEndTime l - logStartTime l))"
  by (induction logs arbitrary: sc fc tc td) auto

lemma length_filter_split:
  "int (length (filter P xs)) + int (length (filter (\<lambda>x. \<not> P x) xs)) = int (length xs)"
  by (induction xs) auto

lemma sint_word_of_int_in_range:
  "- (2 ^ 63) \<le> k \<Longrightarrow> k < 2 ^ 63 \<Longrightarrow> sint (word_of_int k :: 64 word) = k"
  by (simp add: sint_sbintrunc' signed_take_bit_int_eq_self)

lemma sint_neg_days:
  fixes d :: "64 word"
  assumes "0 < sint d"
  shows "sint (- d) = - sint d"
proof -
  have "sint d < 2 ^ 63"
    using sint_lt [of d] by simp
  with assms have "signed_take_bit 63 (- sint d) = - sint d"
    by (intro signed_take_bit_int_eq_self) simp_all
  then show ?thesis
    by (simp add: sint_word_ariths)
qed

text \<open>
  C7 (as amended). Let the period be \<open>days\<close> when it is positive and 7 otherwise, and let
  the window start at the instant \<open>AddDate\<close> gives for the clock reading moved back by
  the period in days. Over the logs of the job (of all jobs for the empty name) whose start
  time is at least that instant, \<open>GetLogStatistics\<close> returns the number of these logs as
  \<open>totalCount\<close>, the number with exit code 0 as \<open>successCount\<close>, the number with
  another exit code as \<open>failCount\<close> (so the two add up to \<open>totalCount\<close>), the number
  with the timeout flag as \<open>timeoutCount\<close>, and as average duration the zero value when
  there is no such log and otherwise, the sum of \<open>endAt - startAt\<close> being in the range
  of an \<open>int64\<close>, the \<open>float64\<close> quotient of that sum by \<open>totalCount\<close>.
\<close>

theorem GetLogStatistics_aggregates:
  "let days' = (if sint days \<le> 0 then 7 else days);
       logs = filter (\<lambda>l. jobNameFilter jobName l \<and> addDate now (- sint days') \<le> logStartTime l)
                coll;
       total = (\<Sum>l\<leftarrow>logs. logEndTime l - logStartTime l)
   in \<exists>st. GetLogStatistics addDate None now coll jobName days = Inr st
        \<and> totalCount st = int (length logs)
        \<and> successCount st = int (length (filter (\<lambda>l. logExitCode l = 0) logs))
        \<and> failCount st = int (length (filter (\<lambda>l. logExitCode l \<noteq> 0) logs))
        \<and> successCount st + failCount st = totalCount st
        \<and> timeoutCount st = int (length (filter logIsTimeout logs))
        \<and> (logs = [] \<longrightarrow> avgDuration st = F64_zero)
        \<and> (logs \<noteq> [] \<and> - (2 ^ 63) \<le> total \<and> total < 2 ^ 63 \<longrightarrow>
              avgDuration st = F64_quot total (int (length logs)))
        \<and> period st = sint days'"
proof -
  define days' where "days' = (if sint days \<le> 0 then 7 else days)"
  define logs where
    "logs = filter (\<lambda>l. jobNameFilter jobName l \<and> addDate now (- sint days') \<le> logStartTime l)
              coll"
  define total where "total = (\<Sum>l\<leftarrow>logs. logEndTime l - logStartTime l)"
  have pos: "0 < sint days'"
    by (simp add: days'_def)
  have found: "FindJobLogsSince None coll jobName (addDate now (sint (- days'))) = Inr logs"
    by (simp add: FindJobLogsSince_def logs_def sint_neg_days [OF pos])
  have run: "GetLogStatistics addDate None now coll jobName days =
          Inr \<lparr>totalCount = int (length logs),
               successCount = int (length (filter (\<lambda>l. logExitCode l = 0) logs)),
               failCount = int (length (filter (\<lambda>l. logExitCode l \<noteq> 0) logs)),
               timeoutCount = int (length (filter logIsTimeout logs)),
               avgDuration =
                 (if length logs > 0
                  then F64_quot (sint (word_of_int total :: 64 word)) (int (length logs))
                  else F64_zero),
               period = sint days'\<rparr>"
    unfolding GetLogStatistics_def Let_def days'_def [symmetric] found
    by (simp add: tally_counts total_def)
  have "\<exists>st. GetLogStatistics addDate None now coll jobName days = Inr st
        \<and> totalCount st = int (length logs)
        \<and> successCount st = int (length (filter (\<lambda>l. logExitCode l = 0) logs))
        \<and> failCount st = int (length (filter (\<lambda>l. logExitCode l \<noteq> 0) logs))
        \<and> successCount st + failCount st = totalCount st
        \<and> timeoutCount st = int (length (filter logIsTimeout logs))
        \<and> (logs = [] \<longrightarrow> avgDuration st = F64_zero)
        \<and> (logs \<noteq> [] \<and> - (2 ^ 63) \<le> total \<and> total < 2 ^ 63 \<longrightarrow>
              avgDuration st = F64_quot total (int (length logs)))
        \<and> period st = sint days'"
    unfolding run
    using length_filter_split [of "\<lambda>l. logExitCode l = 0" logs]
    by (simp add: sint_word_of_int_in_range)
  then show ?thesis
    unfolding Let_def days'_def logs_def total_def .
qed

theorem GetLogStatistics_aggregates_witness:
  "(\<exists>st. GetLogStatistics utc_AddDate None 1000000 [recent_log, older_log, other_job_log] ''a'' 1
        = Inr st
      \<and> totalCount st = 1 \<and> successCount st = 1 \<and> failCount st = 0
      \<and> timeoutCount st = 0 \<and> avgDuration st = F64_quot 2 1 \<and> period st = 1)
   \<and> (\<exists>st. GetLogStatistics utc_AddDate None 1000000 [recent_log, older_log, other_job_log] ''c'' 0
        = Inr st
      \<and> totalCount st = 0 \<and> avgDuration st = F64_zero \<and> period st = 7)"
proof -
  have "\<exists>st. GetLogStatistics utc_AddDate None 1000000 [recent_log, older_log, other_job_log] ''a'' 1
        = Inr st
      \<and> totalCount st = 1 \<and> successCount st = 1 \<and> failCount st = 0
      \<and> successCount st + failCount st = totalCount st
      \<and> timeoutCount st = 0 \<and> avgDuration st = F64_quot 2 1 \<and> period st = 1"
    using GetLogStatistics_aggregates
      [where days = 1 and jobName = "''a''" and now = 1000000 and addDate = utc_AddDate
         and coll = "[recent_log, older_log, other_job_log]"]
    by (simp add: Let_def jobNameFilter_def utc_AddDate_def recent_log_def older_log_def
        other_job_log_def sample_log_def)
  moreover have "\<exists>st. GetLogStatistics utc_AddDate None 1000000
                      [recent_log, older_log, other_job_log] ''c'' 0 = Inr st
      \<and> totalCount st = 0 \<and> successCount st = 0 \<and> failCount st = 0
      \<and> successCount st + failCount st = totalCount st
      \<and> timeoutCount st = 0 \<and> avgDuration st = F64_zero \<and> period st = 7"
    using GetLogStatistics_aggregates
      [where days = 0 and jobName = "''c''" and now = 1000000 and addDate = utc_AddDate
         and coll = "[recent_log, older_log, other_job_log]"]
    by (simp add: Let_def jobNameFilter_def utc_AddDate_def recent_log_def older_log_def
        other_job_log_def sample_log_def)
  ultimately show ?thesis by blast
qed

text \<open>
  The claim as it was stated fails for \<open>days = 0\<close>, here on a server in UTC: a log started
  100000 seconds before the clock reading lies outside the window "now minus 0 days", and
  is counted, the period being 7.
\<close>

theorem GetLogStatistics_zero_days:
  "utc_AddDate 1000000 (- 0) = 1000000
   \<and> logStartTime older_log < 1000000
   \<and> GetLogStatistics utc_AddDate None 1000000 [older_log] ''a'' 0
       = Inr \<lparr>totalCount = 1, successCount = 0, failCount = 1, timeoutCount = 0,
              avgDuration = F64_quot 4 1, period = 7\<rparr>"
  by (simp add: GetLogStatistics_def FindJobLogsSince_def utc_AddDate_def Let_def
      jobNameFilter_def older_log_def sample_log_def)

subsection \<open>Log sink\<close>

text \<open>
  C9. \<open>LogSink.Append\<close> always returns (it is a total function with no waiting branch):
  when the ingress channel has free capacity the log is enqueued at its end and nothing is
  reported; when the channel is full the channel contents are unchanged and one entry
  (the discard report) is added to the logger. The batch is untouched in both cases.
\<close>

theorem Append_never_blocks:
  "(length (logChan l) < logChanCap l \<longrightarrow>
      logChan (Append l jobLog) = logChan l @ [jobLog]
      \<and> sinkLogger (Append l jobLog) = sinkLogger l)
   \<and> (logChanCap l \<le> length (logChan l) \<longrightarrow>
      logChan (Append l jobLog) = logChan l
      \<and> sinkLogger (Append l jobLog)
          = sinkLogger l @ [(LvError, ''log channel is full, log discarded'')])
   \<and> logBatch (Append l jobLog) = logBatch l
   \<and> logChanCap (Append l jobLog) = logChanCap l"
  by (simp add: Append_def)

theorem Append_never_blocks_witness:
  "length (logChan (sample_sink [sample_log])) < logChanCap (sample_sink [sample_log])
   \<and> logChan (Append (sample_sink [sample_log]) sample_log) = [sample_log, sample_log]
   \<and> logChanCap (sample_sink [sample_log, sample_log])
       \<le> length (logChan (sample_sink [sample_log, sample_log]))
   \<and> logChan (Append (sample_sink [sample_log, sample_log]) sample_log)
       = [sample_log, sample_log]
   \<and> sinkLogger (Append (sample_sink [sample_log, sample_log]) sample_log)
       = [(LvError, ''log channel is full, log discarded'')]"
  using Append_never_blocks [of "sample_sink [sample_log]" sample_log]
    Append_never_blocks [of "sample_sink [sample_log, sample_log]" sample_log]
  by (simp add: sample_sink_def)

end
